theory Spec2Isabelle
  imports Complex_Main "HOL-Library.Multiset"
begin

section \<open>JSON values and the JavaScript coercions the handlers use\<close>

text \<open>
  The handlers of \<^verbatim>\<open>Exercicio_Livro/index.js\<close> read a JSON request body, query
  strings and a path parameter. A JSON value after \<^verbatim>\<open>express.json()\<close> is null, a
  boolean, a number, a string, an array or an object; destructuring a key the body does
  not have gives \<^verbatim>\<open>undefined\<close>.

  What the model takes as given: \<^verbatim>\<open>req.body\<close> is the parsed JSON object, a query
  parameter is absent or one string, given as its UTF-8 bytes, the database is reachable
  (a driver or network failure, which every handler turns into a 500, is not part of
  it), and the clock is an input of the handlers.
\<close>

text \<open>
  A JavaScript number is NaN, a finite value or an infinity (\<open>Infinity True\<close> is the
  positive one). The numbers of a JSON body are finite doubles, kept as the reals they
  are, or an infinity (\<^verbatim>\<open>JSON.parse\<close> reads \<^verbatim>\<open>1e400\<close> as Infinity); the numbers
  of the list endpoint are integers.
\<close>

datatype 'a number = NaN | Finite 'a | Infinity bool

datatype jsval =
    JUndefined
  | JNull
  | JBool bool
  | JNum "real number"
  | JStr string
  | JArr "jsval list"
  | JObj "(string \<times> jsval) list"

type_synonym body = "string \<rightharpoonup> jsval"

text \<open>\<^verbatim>\<open>const { k } = req.body\<close>: the value of the key, or undefined.\<close>

definition getProp :: "body \<Rightarrow> string \<Rightarrow> jsval" where
  "getProp b k = (case b k of None \<Rightarrow> JUndefined | Some v \<Rightarrow> v)"

text \<open>JavaScript's ToBoolean, so that \<^verbatim>\<open>!x\<close> is \<open>\<not> truthy x\<close>.\<close>

fun truthy :: "jsval \<Rightarrow> bool" where
  "truthy JUndefined = False"
| "truthy JNull = False"
| "truthy (JBool b) = b"
| "truthy (JNum n) = (n \<noteq> NaN \<and> n \<noteq> Finite 0)"
| "truthy (JStr s) = (s \<noteq> [])"
| "truthy (JArr xs) = True"
| "truthy (JObj kvs) = True"

text \<open>\<^verbatim>\<open>x == null\<close> holds of null and undefined only.\<close>

fun nullish :: "jsval \<Rightarrow> bool" where
  "nullish JUndefined = True"
| "nullish JNull = True"
| "nullish v = False"

subsection \<open>Doubles that hold integers\<close>

text \<open>
  \<^verbatim>\<open>parseInt\<close> and the arithmetic of the list endpoint work on doubles whose values
  are integers. An integer of magnitude below \<open>2 ^ 53\<close> is a double; a larger one is
  rounded to the nearest integer with a 53-bit significand, ties to the even one, and
  to an infinity when that is \<open>2 ^ 1024\<close> or more.
\<close>

fun bitLength :: "nat \<Rightarrow> nat" where
  "bitLength n = (if n = 0 then 0 else Suc (bitLength (n div 2)))"

declare bitLength.simps [simp del]

definition roundToDouble :: "int \<Rightarrow> int number" where
  "roundToDouble n =
     (let a = nat \<bar>n\<bar> in
      if a < 2 ^ 53 then Finite n
      else
        (let e = bitLength a - 53;
             q = a div 2 ^ e;
             r = a mod 2 ^ e;
             q' = (if 2 ^ e < 2 * r \<or> (2 * r = 2 ^ e \<and> odd q) then q + 1 else q);
             m = q' * 2 ^ e
         in if 2 ^ 1024 \<le> m then Infinity (0 < n) else Finite (sgn n * int m)))"

text \<open>\<^verbatim>\<open>Math.max(a, x)\<close> and \<^verbatim>\<open>Math.min(a, x)\<close> for a finite \<open>a\<close>.\<close>

definition mathMax :: "int \<Rightarrow> int number \<Rightarrow> int number" where
  "mathMax a x =
     (case x of NaN \<Rightarrow> NaN | Finite v \<Rightarrow> Finite (max a v)
      | Infinity up \<Rightarrow> if up then Infinity True else Finite a)"

definition mathMin :: "int \<Rightarrow> int number \<Rightarrow> int number" where
  "mathMin a x =
     (case x of NaN \<Rightarrow> NaN | Finite v \<Rightarrow> Finite (min a v)
      | Infinity up \<Rightarrow> if up then Finite a else Infinity False)"

text \<open>\<^verbatim>\<open>x - 1\<close> and \<^verbatim>\<open>x * y\<close>, each rounded once.\<close>

definition minusOne :: "int number \<Rightarrow> int number" where
  "minusOne x =
     (case x of NaN \<Rightarrow> NaN | Finite v \<Rightarrow> roundToDouble (v - 1) | Infinity up \<Rightarrow> Infinity up)"

definition multiply :: "int number \<Rightarrow> int number \<Rightarrow> int number" where
  "multiply x y =
     (case (x, y) of
        (Finite v, Finite w) \<Rightarrow> roundToDouble (v * w)
      | (Finite v, Infinity up) \<Rightarrow> if v = 0 then NaN else Infinity (up = (0 < v))
      | (Infinity up, Finite w) \<Rightarrow> if w = 0 then NaN else Infinity (up = (0 < w))
      | (Infinity up, Infinity up') \<Rightarrow> Infinity (up = up')
      | _ \<Rightarrow> NaN)"

text \<open>\<^verbatim>\<open>n || d\<close> on a number: NaN and zero are falsy and give the default.\<close>

definition orDefault :: "int number \<Rightarrow> int \<Rightarrow> int number" where
  "orDefault n d =
     (case n of NaN \<Rightarrow> Finite d | Finite v \<Rightarrow> if v = 0 then Finite d else Finite v
      | Infinity up \<Rightarrow> Infinity up)"

subsection \<open>parseInt without a radix\<close>

text \<open>
  \<^verbatim>\<open>parseInt(s)\<close>: leading white space is dropped, then an optional sign, then an
  optional \<^verbatim>\<open>0x\<close>/\<^verbatim>\<open>0X\<close> prefix that selects radix 16 (radix 10 otherwise); the
  longest run of digits of that radix is read, an empty run gives NaN, and the integer
  read is rounded to a double.

  White space is what JavaScript strips: tab, line feed, vertical tab, form feed,
  carriage return and space, and beyond ASCII the no-break space U+00A0, U+1680,
  U+2000 to U+200A, the line and paragraph separators U+2028 and U+2029, U+202F,
  U+205F, U+3000 and the byte order mark U+FEFF, here in their UTF-8 encodings of two
  and three bytes.
\<close>

definition asciiWhite :: "char \<Rightarrow> bool" where
  "asciiWhite c = (c \<in> {CHR 0x09, CHR 0x0A, CHR 0x0B, CHR 0x0C, CHR 0x0D, CHR 0x20})"

definition white2 :: "char \<Rightarrow> char \<Rightarrow> bool" where
  "white2 a b = (a = CHR 0xC2 \<and> b = CHR 0xA0)"

definition white3 :: "char \<Rightarrow> char \<Rightarrow> char \<Rightarrow> bool" where
  "white3 a b c =
     ((a = CHR 0xE1 \<and> b = CHR 0x9A \<and> c = CHR 0x80) \<or>
      (a = CHR 0xE2 \<and> b = CHR 0x80 \<and>
         ((0x80 \<le> (of_char c :: nat) \<and> (of_char c :: nat) \<le> 0x8A) \<or>
          c \<in> {CHR 0xA8, CHR 0xA9, CHR 0xAF})) \<or>
      (a = CHR 0xE2 \<and> b = CHR 0x81 \<and> c = CHR 0x9F) \<or>
      (a = CHR 0xE3 \<and> b = CHR 0x80 \<and> c = CHR 0x80) \<or>
      (a = CHR 0xEF \<and> b = CHR 0xBB \<and> c = CHR 0xBF))"

fun skipWhite :: "string \<Rightarrow> string" where
  "skipWhite (a # b # c # s) =
     (if asciiWhite a then skipWhite (b # c # s)
      else if white2 a b then skipWhite (c # s)
      else if white3 a b c then skipWhite s
      else a # b # c # s)"
| "skipWhite [a, b] =
     (if asciiWhite a then skipWhite [b] else if white2 a b then [] else [a, b])"
| "skipWhite [a] = (if asciiWhite a then [] else [a])"
| "skipWhite [] = []"

definition digitVal :: "char \<Rightarrow> nat option" where
  "digitVal c =
     (let n = (of_char c :: nat) in
      if 48 \<le> n \<and> n \<le> 57 then Some (n - 48)
      else if 97 \<le> n \<and> n \<le> 122 then Some (n - 87)
      else if 65 \<le> n \<and> n \<le> 90 then Some (n - 55)
      else None)"

definition isDigit :: "nat \<Rightarrow> char \<Rightarrow> bool" where
  "isDigit radix c = (case digitVal c of None \<Rightarrow> False | Some v \<Rightarrow> v < radix)"

definition digitsValue :: "nat \<Rightarrow> string \<Rightarrow> int" where
  "digitsValue radix z =
     foldl (\<lambda>acc c. acc * int radix + int (case digitVal c of None \<Rightarrow> 0 | Some v \<Rightarrow> v)) 0 z"

definition parseInt :: "string \<Rightarrow> int number" where
  "parseInt s =
     (let s0 = skipWhite s;
          neg = (case s0 of c # _ \<Rightarrow> c = CHR ''-'' | [] \<Rightarrow> False);
          s1 = (case s0 of c # r \<Rightarrow> if c = CHR ''-'' \<or> c = CHR ''+'' then r else s0
                | [] \<Rightarrow> s0);
          hex = (take 2 s1 = ''0x'' \<or> take 2 s1 = ''0X'');
          radix = (if hex then 16 else 10);
          s2 = (if hex then drop 2 s1 else s1);
          z = takeWhile (isDigit radix) s2
      in if z = [] then NaN
         else roundToDouble ((if neg then - 1 else 1) * digitsValue radix z))"

text \<open>
  A query parameter is absent or a string; \<^verbatim>\<open>parseInt(undefined)\<close> reads the text
  \<^verbatim>\<open>undefined\<close>, which has no digits.
\<close>

definition parseIntQuery :: "string option \<Rightarrow> int number" where
  "parseIntQuery q = (case q of None \<Rightarrow> parseInt ''undefined'' | Some s \<Rightarrow> parseInt s)"

section \<open>The Book model and the collection\<close>

text \<open>
  \<^verbatim>\<open>bookSchema\<close>: three required strings, two required numbers, and
  \<^verbatim>\<open>timestamps: true\<close>. A stored document also carries its \<^verbatim>\<open>_id\<close> and the version
  key. Dates are milliseconds since the epoch.
\<close>

record 'oid book =
  bId :: 'oid
  titulo :: string
  autor :: string
  editora :: string
  ano :: "real number"
  preco :: "real number"
  createdAt :: int
  updatedAt :: int
  versionKey :: nat

text \<open>The collection in its natural (insertion) order.\<close>

type_synonym 'oid collection = "'oid book list"

text \<open>
  Mongoose itself is a library the repository calls. What the handlers depend on and
  what differs between its versions is taken as a parameter:
  \<^item> \<open>toObjectId\<close>: the cast of a path parameter to an ObjectId, \<open>None\<close> when the cast
    fails; \<^verbatim>\<open>mongoose.isValidObjectId\<close> is documented as "true if Mongoose can cast
    the given value to an ObjectId";
  \<^item> \<open>stringOf\<close>, \<open>numberOf\<close>: the cast of a value that is not already of the
    path's type (a number given for a String path, a string given for a Number path, an
    array, an object), \<open>None\<close> when the cast fails.
\<close>

record 'oid mongoose =
  toObjectId :: "string \<Rightarrow> 'oid option"
  stringOf :: "jsval \<Rightarrow> string option"
  numberOf :: "jsval \<Rightarrow> real number option"

definition isValidObjectId :: "'oid mongoose \<Rightarrow> string \<Rightarrow> bool" where
  "isValidObjectId M ident = (toObjectId M ident \<noteq> None)"

datatype storeError = ValidationError | DuplicateKey | CastError | BadValue

text \<open>
  A path \<^verbatim>\<open>{ type: String, required: true }\<close>: null and undefined fail the required
  validator, a string is kept, anything else goes through the cast; the required validator
  of a String path also refuses the empty string. \<open>None\<close> is a failed validation.
\<close>

definition requiredString :: "'oid mongoose \<Rightarrow> jsval \<Rightarrow> string option" where
  "requiredString M v =
     (let cast = (case v of JUndefined \<Rightarrow> None | JNull \<Rightarrow> None | JStr s \<Rightarrow> Some s
                  | _ \<Rightarrow> stringOf M v)
      in case cast of None \<Rightarrow> None | Some s \<Rightarrow> if s = [] then None else Some s)"

text \<open>
  A path \<^verbatim>\<open>{ type: Number, required: true }\<close>: any number but NaN passes, zero and
  the infinities included.
\<close>

definition requiredNumber :: "'oid mongoose \<Rightarrow> jsval \<Rightarrow> real number option" where
  "requiredNumber M v =
     (let cast = (case v of JUndefined \<Rightarrow> None | JNull \<Rightarrow> None | JNum n \<Rightarrow> Some n
                  | _ \<Rightarrow> numberOf M v)
      in case cast of None \<Rightarrow> None | Some n \<Rightarrow> if n = NaN then None else Some n)"

definition ids :: "'oid collection \<Rightarrow> 'oid set" where
  "ids db = bId ` set db"

text \<open>
  \<^verbatim>\<open>new Book({ titulo, autor, editora, ano, preco }).save()\<close>: the document is
  validated against the schema, gets the identifier the driver generated for it
  (\<open>fresh\<close>), both timestamps set to the current time and version key 0, and is
  inserted; the collection's unique index on \<^verbatim>\<open>_id\<close> refuses an identifier that is
  already there. A failure is the rejected promise.
\<close>

definition save ::
  "'oid mongoose \<Rightarrow> int \<Rightarrow> 'oid \<Rightarrow> jsval \<Rightarrow> jsval \<Rightarrow> jsval \<Rightarrow> jsval \<Rightarrow> jsval \<Rightarrow>
   'oid collection \<Rightarrow> storeError + ('oid book \<times> 'oid collection)" where
  "save M now fresh t a e n p db =
     (case (requiredString M t, requiredString M a, requiredString M e,
            requiredNumber M n, requiredNumber M p) of
        (Some t', Some a', Some e', Some n', Some p') \<Rightarrow>
          if fresh \<in> ids db then Inl DuplicateKey
          else
            (let doc = \<lparr> bId = fresh, titulo = t', autor = a', editora = e',
                         ano = n', preco = p', createdAt = now, updatedAt = now,
                         versionKey = 0 \<rparr>
             in Inr (doc, db @ [doc]))
      | _ \<Rightarrow> Inl ValidationError)"

text \<open>
  \<^verbatim>\<open>Book.find().skip(skip).limit(limit).sort({ createdAt: -1 })\<close>: the query builder
  collects the options, and the server sorts, then skips, then limits, whatever the order
  of the calls. Documents with the same timestamp keep their natural order. The server
  reads the offset as a 64-bit integer, saturating, so that an offset beyond the
  collection, the positive infinity included, leaves nothing; it refuses a negative
  offset. A limit of zero is no limit and a negative limit is its magnitude. The query
  fails as well on the values that are no count at all (NaN, a negative infinity, an
  infinite limit).
\<close>

definition sortCreatedDesc :: "'oid collection \<Rightarrow> 'oid collection" where
  "sortCreatedDesc db = sort_key (\<lambda>d. - createdAt d) db"

definition limited :: "int \<Rightarrow> 'a list \<Rightarrow> 'a list" where
  "limited l xs = (if l = 0 then xs else take (nat \<bar>l\<bar>) xs)"

definition findPage ::
  "int number \<Rightarrow> int number \<Rightarrow> 'oid collection \<Rightarrow> storeError + 'oid collection" where
  "findPage skip limit db =
     (case limit of
        Finite l \<Rightarrow>
          (case skip of
             Finite k \<Rightarrow>
               if k < 0 then Inl BadValue
               else Inr (limited l (drop (nat k) (sortCreatedDesc db)))
           | Infinity up \<Rightarrow> if up then Inr [] else Inl BadValue
           | NaN \<Rightarrow> Inl BadValue)
      | _ \<Rightarrow> Inl BadValue)"

definition countDocuments :: "'oid collection \<Rightarrow> nat" where
  "countDocuments db = length db"

definition findById :: "'oid mongoose \<Rightarrow> string \<Rightarrow> 'oid collection \<Rightarrow> storeError + 'oid book option" where
  "findById M ident db =
     (case toObjectId M ident of
        None \<Rightarrow> Inl CastError
      | Some oid \<Rightarrow> Inr (find (\<lambda>d. bId d = oid) db))"

text \<open>The typed \<^verbatim>\<open>$set\<close> after casting: a field is set or left alone.\<close>

record patch =
  setTitulo :: "string option"
  setAutor :: "string option"
  setEditora :: "string option"
  setAno :: "real number option"
  setPreco :: "real number option"

text \<open>
  One path of the \<^verbatim>\<open>$set\<close> under \<^verbatim>\<open>runValidators: true\<close>: a key that is not in
  the update is left alone (\<open>Some None\<close>), a key that is there is cast and validated
  (\<open>None\<close> when that fails).
\<close>

definition setPath :: "(jsval \<Rightarrow> 'a option) \<Rightarrow> (string \<times> jsval) list \<Rightarrow> string \<Rightarrow> 'a option option" where
  "setPath validate upd k =
     (case map_of upd k of
        None \<Rightarrow> Some None
      | Some v \<Rightarrow> (case validate v of None \<Rightarrow> None | Some x \<Rightarrow> Some (Some x)))"

definition castUpdate :: "'oid mongoose \<Rightarrow> (string \<times> jsval) list \<Rightarrow> patch option" where
  "castUpdate M upd =
     (case (setPath (requiredString M) upd ''titulo'', setPath (requiredString M) upd ''autor'',
            setPath (requiredString M) upd ''editora'', setPath (requiredNumber M) upd ''ano'',
            setPath (requiredNumber M) upd ''preco'') of
        (Some t, Some a, Some e, Some n, Some p) \<Rightarrow>
          Some \<lparr> setTitulo = t, setAutor = a, setEditora = e, setAno = n, setPreco = p \<rparr>
      | _ \<Rightarrow> None)"

text \<open>
  The write itself: the supplied fields are replaced, and \<^verbatim>\<open>timestamps: true\<close> adds
  \<^verbatim>\<open>updatedAt\<close> to the \<^verbatim>\<open>$set\<close>. The identifier, \<^verbatim>\<open>createdAt\<close> and the version
  key are not part of it.
\<close>

definition applyPatch :: "int \<Rightarrow> patch \<Rightarrow> 'oid book \<Rightarrow> 'oid book" where
  "applyPatch now p d =
     d \<lparr> titulo := (case setTitulo p of None \<Rightarrow> titulo d | Some s \<Rightarrow> s),
         autor := (case setAutor p of None \<Rightarrow> autor d | Some s \<Rightarrow> s),
         editora := (case setEditora p of None \<Rightarrow> editora d | Some s \<Rightarrow> s),
         ano := (case setAno p of None \<Rightarrow> ano d | Some r \<Rightarrow> r),
         preco := (case setPreco p of None \<Rightarrow> preco d | Some r \<Rightarrow> r),
         updatedAt := now \<rparr>"

text \<open>The first document with the identifier is rewritten in place.\<close>

fun updateOne :: "'oid \<Rightarrow> ('oid book \<Rightarrow> 'oid book) \<Rightarrow> 'oid collection \<Rightarrow> 'oid collection" where
  "updateOne oid f [] = []"
| "updateOne oid f (d # ds) = (if bId d = oid then f d # ds else d # updateOne oid f ds)"

fun deleteOne :: "'oid \<Rightarrow> 'oid collection \<Rightarrow> 'oid collection" where
  "deleteOne oid [] = []"
| "deleteOne oid (d # ds) = (if bId d = oid then ds else d # deleteOne oid ds)"

text \<open>
  \<^verbatim>\<open>Book.findByIdAndUpdate(id, { $set: update }, { new: true, runValidators: true })\<close>:
  the update is cast and validated before anything is sent to the server; then the
  document is looked up, \<open>None\<close> when there is none, and with \<^verbatim>\<open>new: true\<close> the
  document after the write is returned.
\<close>

definition findByIdAndUpdate ::
  "'oid mongoose \<Rightarrow> int \<Rightarrow> string \<Rightarrow> (string \<times> jsval) list \<Rightarrow> 'oid collection \<Rightarrow>
   storeError + ('oid book option \<times> 'oid collection)" where
  "findByIdAndUpdate M now ident upd db =
     (case toObjectId M ident of
        None \<Rightarrow> Inl CastError
      | Some oid \<Rightarrow>
          (case castUpdate M upd of
             None \<Rightarrow> Inl ValidationError
           | Some p \<Rightarrow>
               (case find (\<lambda>d. bId d = oid) db of
                  None \<Rightarrow> Inr (None, db)
                | Some d \<Rightarrow> Inr (Some (applyPatch now p d), updateOne oid (applyPatch now p) db))))"

text \<open>\<^verbatim>\<open>Book.findByIdAndDelete(id)\<close> returns the document it removed.\<close>

definition findByIdAndDelete ::
  "'oid mongoose \<Rightarrow> string \<Rightarrow> 'oid collection \<Rightarrow> storeError + ('oid book option \<times> 'oid collection)" where
  "findByIdAndDelete M ident db =
     (case toObjectId M ident of
        None \<Rightarrow> Inl CastError
      | Some oid \<Rightarrow>
          (case find (\<lambda>d. bId d = oid) db of
             None \<Rightarrow> Inr (None, db)
           | Some d \<Rightarrow> Inr (Some d, deleteOne oid db)))"

section \<open>The route handlers\<close>

text \<open>The texts of the JSON error and success messages.\<close>

datatype message =
    CamposObrigatorios
  | ErroCriar
  | ErroListar
  | IdInvalido
  | LivroNaoEncontrado
  | ErroBuscar
  | NenhumCampo
  | ErroAtualizar
  | LivroRemovido
  | ErroRemover

datatype 'oid payload =
    Error message
  | Doc "'oid book"
  | Listing "int number" "int number" nat "'oid book list"
  | Removed message "'oid book"

type_synonym 'oid response = "nat \<times> 'oid payload"

text \<open>\<^verbatim>\<open>POST /books\<close>\<close>

definition postBooks ::
  "'oid mongoose \<Rightarrow> int \<Rightarrow> 'oid \<Rightarrow> body \<Rightarrow> 'oid collection \<Rightarrow> 'oid response \<times> 'oid collection" where
  "postBooks M now fresh b db =
     (let t = getProp b ''titulo''; a = getProp b ''autor''; e = getProp b ''editora'';
          n = getProp b ''ano''; p = getProp b ''preco''
      in if \<not> truthy t \<or> \<not> truthy a \<or> \<not> truthy e \<or> nullish n \<or> nullish p
         then ((400, Error CamposObrigatorios), db)
         else (case save M now fresh t a e n p db of
                 Inl err \<Rightarrow> ((500, Error ErroCriar), db)
               | Inr (saved, db') \<Rightarrow> ((201, Doc saved), db')))"

text \<open>\<^verbatim>\<open>GET /books\<close>: the three constants of lines 71 to 73, then the query.\<close>

definition pageOf :: "string option \<Rightarrow> int number" where
  "pageOf qpage = mathMax 1 (orDefault (parseIntQuery qpage) 1)"

definition limitOf :: "string option \<Rightarrow> int number" where
  "limitOf qlimit = mathMax 1 (mathMin 100 (orDefault (parseIntQuery qlimit) 20))"

definition skipOf :: "string option \<Rightarrow> string option \<Rightarrow> int number" where
  "skipOf qpage qlimit = multiply (minusOne (pageOf qpage)) (limitOf qlimit)"

definition getBooks :: "string option \<Rightarrow> string option \<Rightarrow> 'oid collection \<Rightarrow> 'oid response" where
  "getBooks qpage qlimit db =
     (let page = pageOf qpage; limit = limitOf qlimit; skip = skipOf qpage qlimit
      in case findPage skip limit db of
           Inl err \<Rightarrow> (500, Error ErroListar)
         | Inr items \<Rightarrow> (200, Listing page limit (countDocuments db) items))"

text \<open>\<^verbatim>\<open>GET /books/:id\<close>\<close>

definition getBookById :: "'oid mongoose \<Rightarrow> string \<Rightarrow> 'oid collection \<Rightarrow> 'oid response" where
  "getBookById M ident db =
     (if \<not> isValidObjectId M ident then (400, Error IdInvalido)
      else (case findById M ident db of
              Inl err \<Rightarrow> (500, Error ErroBuscar)
            | Inr None \<Rightarrow> (404, Error LivroNaoEncontrado)
            | Inr (Some d) \<Rightarrow> (200, Doc d)))"

text \<open>
  \<^verbatim>\<open>PUT /books/:id\<close>: the \<^verbatim>\<open>update\<close> object gets a key for each of the five fields
  that is not undefined, in this order.
\<close>

definition supplied :: "body \<Rightarrow> string \<Rightarrow> (string \<times> jsval) list" where
  "supplied b k = (if getProp b k \<noteq> JUndefined then [(k, getProp b k)] else [])"

definition buildUpdate :: "body \<Rightarrow> (string \<times> jsval) list" where
  "buildUpdate b =
     supplied b ''titulo'' @ supplied b ''autor'' @ supplied b ''editora'' @
     supplied b ''ano'' @ supplied b ''preco''"

definition putBook ::
  "'oid mongoose \<Rightarrow> int \<Rightarrow> string \<Rightarrow> body \<Rightarrow> 'oid collection \<Rightarrow> 'oid response \<times> 'oid collection" where
  "putBook M now ident b db =
     (if \<not> isValidObjectId M ident then ((400, Error IdInvalido), db)
      else
        (let upd = buildUpdate b
         in if length upd = 0 then ((400, Error NenhumCampo), db)
            else (case findByIdAndUpdate M now ident upd db of
                    Inl err \<Rightarrow> ((500, Error ErroAtualizar), db)
                  | Inr (None, db') \<Rightarrow> ((404, Error LivroNaoEncontrado), db')
                  | Inr (Some updated, db') \<Rightarrow> ((200, Doc updated), db'))))"

text \<open>\<^verbatim>\<open>DELETE /books/:id\<close>\<close>

definition deleteBook ::
  "'oid mongoose \<Rightarrow> string \<Rightarrow> 'oid collection \<Rightarrow> 'oid response \<times> 'oid collection" where
  "deleteBook M ident db =
     (if \<not> isValidObjectId M ident then ((400, Error IdInvalido), db)
      else (case findByIdAndDelete M ident db of
              Inl err \<Rightarrow> ((500, Error ErroRemover), db)
            | Inr (None, db') \<Rightarrow> ((404, Error LivroNaoEncontrado), db')
            | Inr (Some deleted, db') \<Rightarrow> ((200, Removed LivroRemovido deleted), db')))"

text \<open>The five business fields, as the handlers name them.\<close>

definition businessFields :: "string list" where
  "businessFields = [''titulo'', ''autor'', ''editora'', ''ano'', ''preco'']"

subsection \<open>Values the schema takes as they are\<close>

text \<open>
  A non-empty string on a String path and a finite number on a Number path pass the
  schema without any cast and come back in the response as they were sent;
  \<^verbatim>\<open>ano\<close> and \<^verbatim>\<open>preco\<close> are the Number paths.
\<close>

fun textValue :: "jsval \<Rightarrow> bool" where
  "textValue (JStr s) = (s \<noteq> [])"
| "textValue v = False"



text \<open>
  What the schema accepts for a path, casts included: the value the validators of
  \<^verbatim>\<open>save\<close> and of \<^verbatim>\<open>runValidators: true\<close> let through.
\<close>

definition accepted :: "'oid mongoose \<Rightarrow> string \<Rightarrow> jsval \<Rightarrow> bool" where
  "accepted M k v =
     (if k = ''ano'' \<or> k = ''preco'' then requiredNumber M v \<noteq> None
      else requiredString M v \<noteq> None)"

subsection \<open>The business fields of a response\<close>



subsection \<open>The server process and its identifier generator\<close>








subsection \<open>Concrete drivers\<close>

text \<open>
  Instances of the parameters for running the handlers on examples. For all of them an
  identifier is 24 hexadecimal digits. \<open>hexDriver\<close> keeps the identifier as its text
  and \<open>seqDriver\<close> reads it as the number it writes; neither casts across types.
  \<open>castingDriver\<close> casts as mongoose does on the two kinds of value used here: a
  boolean becomes its name on a String path and 0 or 1 on a Number path, and a string of
  decimal digits becomes the number it writes.
\<close>

definition isHex24 :: "string \<Rightarrow> bool" where
  "isHex24 s = (length s = 24 \<and> list_all (isDigit 16) s)"

definition hexDriver :: "string mongoose" where
  "hexDriver = \<lparr> toObjectId = (\<lambda>s. if isHex24 s then Some s else None),
                 stringOf = (\<lambda>v. None), numberOf = (\<lambda>v. None) \<rparr>"

definition seqDriver :: "nat mongoose" where
  "seqDriver = \<lparr> toObjectId = (\<lambda>s. if isHex24 s then Some (nat (digitsValue 16 s)) else None),
                 stringOf = (\<lambda>v. None), numberOf = (\<lambda>v. None) \<rparr>"

definition castingDriver :: "nat mongoose" where
  "castingDriver =
     seqDriver \<lparr> stringOf := (\<lambda>v. case v of JBool t \<Rightarrow> Some (if t then ''true'' else ''false'')
                                  | _ \<Rightarrow> None),
                 numberOf := (\<lambda>v. case v of
                                  JBool t \<Rightarrow> Some (Finite (if t then 1 else 0))
                                | JStr z \<Rightarrow> if z \<noteq> [] \<and> list_all (isDigit 10) z
                                            then Some (Finite (of_int (digitsValue 10 z)))
                                            else None
                                | _ \<Rightarrow> None) \<rparr>"

subsection \<open>Example data\<close>

text \<open>
  Two stored books, a one-field update, a complete create payload and variants of it (an
  empty title, zero for both numbers, an infinite price, a year sent as a string, a
  title sent as a boolean), and a body that names no business field.
\<close>

definition idA :: string where "idA = ''0123456789abcdef01234567''"
definition idB :: string where "idB = ''89abcdef0123456701234567''"

definition bookA :: "string book" where
  "bookA = \<lparr> bId = idA, titulo = ''A'', autor = ''B'', editora = ''C'', ano = Finite 2020,
             preco = Finite 10, createdAt = 1000, updatedAt = 1000, versionKey = 0 \<rparr>"

definition bookB :: "string book" where
  "bookB = \<lparr> bId = idB, titulo = ''D'', autor = ''E'', editora = ''F'', ano = Finite 1999,
             preco = Finite 25, createdAt = 2000, updatedAt = 2500, versionKey = 0 \<rparr>"

definition bodyPreco :: body where
  "bodyPreco = [''preco'' \<mapsto> JNum (Finite 12)]"

definition bodyAnoText :: body where
  "bodyAnoText = [''ano'' \<mapsto> JStr ''2021'']"

definition bodyA :: body where
  "bodyA = [''titulo'' \<mapsto> JStr ''A'', ''autor'' \<mapsto> JStr ''B'', ''editora'' \<mapsto> JStr ''C'',
            ''ano'' \<mapsto> JNum (Finite 2020), ''preco'' \<mapsto> JNum (Finite 10)]"

definition bodyEmptyTitulo :: body where
  "bodyEmptyTitulo = bodyA(''titulo'' \<mapsto> JStr [])"

definition bodyZero :: body where
  "bodyZero = bodyA(''ano'' \<mapsto> JNum (Finite 0), ''preco'' \<mapsto> JNum (Finite 0))"




definition bodyForeign :: body where
  "bodyForeign = [''_id'' \<mapsto> JStr idB, ''createdAt'' \<mapsto> JNum (Finite 1),
                  ''updatedAt'' \<mapsto> JNum (Finite 2)]"

definition firstBook :: "nat book" where
  "firstBook = \<lparr> bId = 0, titulo = ''A'', autor = ''B'', editora = ''C'', ano = Finite 2020,
                 preco = Finite 10, createdAt = 1000, updatedAt = 1000, versionKey = 0 \<rparr>"



section \<open>Auxiliary facts\<close>

subsection \<open>Parsing and the schema\<close>

lemmas parse_defs = parseIntQuery_def parseInt_def asciiWhite_def white2_def white3_def
  isDigit_def digitVal_def digitsValue_def


lemmas hex_defs = hexDriver_def isHex24_def isDigit_def digitVal_def

lemma parseIntQuery_absent: "parseIntQuery None = NaN"
  by (simp add: parse_defs)


lemma roundToDouble_nonneg:
  assumes "0 \<le> n"
  shows "roundToDouble n = Infinity True \<or> (\<exists>m\<ge>0. roundToDouble n = Finite m)"
proof (cases "nat \<bar>n\<bar> < 2 ^ 53")
  case True
  with assms show ?thesis
    by (simp add: roundToDouble_def Let_def)
next
  case False
  with assms have "0 < n"
    by (cases "n = 0") simp_all
  with False show ?thesis
    by (simp add: roundToDouble_def Let_def)
qed

lemma textValue_iff: "textValue v \<longleftrightarrow> (\<exists>s. s \<noteq> [] \<and> v = JStr s)"
  by (cases v) auto


lemma requiredString_JStr: "requiredString M (JStr s) = (if s = [] then None else Some s)"
  by (simp add: requiredString_def)

lemma requiredString_undefined: "requiredString M JUndefined = None"
  by (simp add: requiredString_def)

lemma requiredString_nonempty: "requiredString M v = Some s \<Longrightarrow> s \<noteq> []"
  by (auto simp: requiredString_def Let_def split: option.splits if_splits)

lemma requiredNumber_JNum: "requiredNumber M (JNum n) = (if n = NaN then None else Some n)"
  by (simp add: requiredNumber_def)

lemma requiredNumber_undefined: "requiredNumber M JUndefined = None"
  by (simp add: requiredNumber_def)

lemma requiredNumber_number: "requiredNumber M v = Some n \<Longrightarrow> n \<noteq> NaN"
  by (auto simp: requiredNumber_def Let_def split: option.splits if_splits)

subsection \<open>Lookups and writes in the collection\<close>

lemma find_absent: "oid \<notin> ids db \<Longrightarrow> find (\<lambda>d. bId d = oid) db = None"
  by (auto simp: find_None_iff ids_def)

lemma find_present:
  "distinct (map bId db) \<Longrightarrow> d \<in> set db \<Longrightarrow> find (\<lambda>x. bId x = bId d) db = Some d"
  by (induction db) (auto simp: rev_image_eqI)

lemma same_id_same_doc:
  "distinct (map bId db) \<Longrightarrow> d \<in> set db \<Longrightarrow> x \<in> set db \<Longrightarrow> bId x = bId d \<Longrightarrow> x = d"
  by (auto simp: distinct_map dest: inj_onD)

lemma filter_other_ids: "oid \<notin> bId ` set ds \<Longrightarrow> filter (\<lambda>x. bId x \<noteq> oid) ds = ds"
  by (induction ds) auto

lemma map_other_ids:
  "oid \<notin> bId ` set ds \<Longrightarrow> map (\<lambda>x. if bId x = oid then f x else x) ds = ds"
  by (induction ds) auto

lemma deleteOne_filter:
  "distinct (map bId db) \<Longrightarrow> deleteOne oid db = filter (\<lambda>x. bId x \<noteq> oid) db"
  by (induction db) (auto simp: filter_other_ids)

lemma ids_deleteOne: "distinct (map bId db) \<Longrightarrow> ids (deleteOne oid db) = ids db - {oid}"
  by (auto simp: deleteOne_filter ids_def)

lemma set_deleteOne:
  "distinct (map bId db) \<Longrightarrow> d \<in> set db \<Longrightarrow> set (deleteOne (bId d) db) = set db - {d}"
  by (auto simp: deleteOne_filter dest: same_id_same_doc)

lemma distinct_deleteOne: "distinct (map bId db) \<Longrightarrow> distinct (map bId (deleteOne oid db))"
  by (simp add: deleteOne_filter distinct_map_filter)

lemma updateOne_map:
  "distinct (map bId db) \<Longrightarrow> updateOne oid f db = map (\<lambda>x. if bId x = oid then f x else x) db"
  by (induction db) (auto simp: map_other_ids)

lemma map_bId_updateOne:
  "(\<And>d. bId (f d) = bId d) \<Longrightarrow> map bId (updateOne oid f db) = map bId db"
  by (induction db) auto

lemma map_createdAt_updateOne:
  "(\<And>d. createdAt (f d) = createdAt d) \<Longrightarrow> map createdAt (updateOne oid f db) = map createdAt db"
  by (induction db) auto

lemma map_versionKey_updateOne:
  "(\<And>d. versionKey (f d) = versionKey d) \<Longrightarrow>
   map versionKey (updateOne oid f db) = map versionKey db"
  by (induction db) auto

lemma updateOne_frame:
  assumes "\<And>x. R x (f x)" and "\<And>x. R x x"
  shows "list_all2 R db (updateOne oid f db)"
  using assms by (induction db) (auto simp: list_all2_refl)

subsection \<open>The list query\<close>

lemma pageOf_cases: "pageOf qp = Infinity True \<or> (\<exists>p\<ge>1. pageOf qp = Finite p)"
  by (cases "parseIntQuery qp") (simp_all add: pageOf_def orDefault_def mathMax_def)

lemma limitOf_range: "\<exists>l. limitOf ql = Finite l \<and> 1 \<le> l \<and> l \<le> 100"
  by (cases "parseIntQuery ql") (simp_all add: limitOf_def orDefault_def mathMax_def mathMin_def)

lemma skipOf_nonneg:
  "skipOf qp ql = Infinity True \<or> (\<exists>k\<ge>0. skipOf qp ql = Finite k)"
proof -
  obtain l where l: "limitOf ql = Finite l" "1 \<le> l"
    using limitOf_range by blast
  from pageOf_cases [of qp] show ?thesis
  proof
    assume "pageOf qp = Infinity True"
    with l show ?thesis
      by (simp add: skipOf_def minusOne_def multiply_def)
  next
    assume "\<exists>p\<ge>1. pageOf qp = Finite p"
    then obtain p where p: "pageOf qp = Finite p" "1 \<le> p"
      by blast
    from p(2) roundToDouble_nonneg [of "p - 1"]
    consider "roundToDouble (p - 1) = Infinity True"
      | m where "0 \<le> m" "roundToDouble (p - 1) = Finite m"
      by auto
    then show ?thesis
    proof cases
      case 1
      with p l show ?thesis
        by (simp add: skipOf_def minusOne_def multiply_def)
    next
      case 2
      with l(2) have "0 \<le> m * l"
        by simp
      from roundToDouble_nonneg [OF this] 2 p l show ?thesis
        by (simp add: skipOf_def minusOne_def multiply_def)
    qed
  qed
qed



lemma findPage_slice:
  assumes "1 \<le> l" and "skip = Infinity True \<or> (\<exists>k\<ge>0. skip = Finite k)"
  shows "\<exists>n. findPage skip (Finite l) db = Inr (take (nat l) (drop n (sortCreatedDesc db))) \<and>
             (\<forall>k. skip = Finite k \<longrightarrow> n = nat k)"
  using assms(2)
proof
  assume "skip = Infinity True"
  then have "findPage skip (Finite l) db =
               Inr (take (nat l) (drop (length (sortCreatedDesc db)) (sortCreatedDesc db)))"
    by (simp add: findPage_def)
  moreover have "\<forall>k. skip = Finite k \<longrightarrow> length (sortCreatedDesc db) = nat k"
    using \<open>skip = Infinity True\<close> by simp
  ultimately show ?thesis
    by blast
next
  assume "\<exists>k\<ge>0. skip = Finite k"
  then obtain k where "0 \<le> k" "skip = Finite k"
    by blast
  with assms(1) have "findPage skip (Finite l) db =
               Inr (take (nat l) (drop (nat k) (sortCreatedDesc db)))"
    by (simp add: findPage_def limited_def)
  with \<open>skip = Finite k\<close> show ?thesis
    by simp
qed

lemma getBooks_answers:
  "\<exists>items. getBooks qp ql db = (200, Listing (pageOf qp) (limitOf ql) (length db) items)"
proof -
  obtain l where l: "limitOf ql = Finite l" "1 \<le> l"
    using limitOf_range by blast
  from findPage_slice [OF l(2) skipOf_nonneg, of qp ql db] l(1) show ?thesis
    by (auto simp: getBooks_def countDocuments_def Let_def)
qed

subsection \<open>The create handler\<close>

lemma postBooks_typed:
  assumes "b ''titulo'' = Some (JStr t)" and "t \<noteq> []"
    and "b ''autor'' = Some (JStr a)" and "a \<noteq> []"
    and "b ''editora'' = Some (JStr e)" and "e \<noteq> []"
    and "b ''ano'' = Some (JNum n)" and "n \<noteq> NaN"
    and "b ''preco'' = Some (JNum p)" and "p \<noteq> NaN"
    and "fresh \<notin> ids db"
  shows "postBooks M now fresh b db =
           ((201, Doc \<lparr> bId = fresh, titulo = t, autor = a, editora = e, ano = n, preco = p,
                        createdAt = now, updatedAt = now, versionKey = 0 \<rparr>),
            db @ [\<lparr> bId = fresh, titulo = t, autor = a, editora = e, ano = n, preco = p,
                     createdAt = now, updatedAt = now, versionKey = 0 \<rparr>])"
  using assms
  by (simp add: postBooks_def getProp_def save_def requiredString_JStr requiredNumber_JNum
      Let_def)

lemma postBooks_created:
  assumes "postBooks M now fresh b db = ((201, Doc r), db')"
  shows "bId r = fresh \<and> fresh \<notin> ids db \<and> db' = db @ [r]"
  using assms
  by (auto simp: postBooks_def save_def Let_def split: if_splits option.splits sum.splits)

lemma postBooks_rejects_iff:
  "postBooks M now fresh b db = ((400, Error CamposObrigatorios), db) \<longleftrightarrow>
     \<not> truthy (getProp b ''titulo'') \<or> \<not> truthy (getProp b ''autor'') \<or>
     \<not> truthy (getProp b ''editora'') \<or> nullish (getProp b ''ano'') \<or>
     nullish (getProp b ''preco'')"
  by (auto simp: postBooks_def Let_def split: sum.splits)

subsection \<open>The update handler\<close>

lemma map_of_buildUpdate:
  "map_of (buildUpdate b) k =
     (if k \<in> set businessFields \<and> getProp b k \<noteq> JUndefined then Some (getProp b k) else None)"
  by (simp add: buildUpdate_def supplied_def businessFields_def)

lemma buildUpdate_empty:
  "buildUpdate b = [] \<longleftrightarrow> (\<forall>k \<in> set businessFields. getProp b k = JUndefined)"
  by (simp add: buildUpdate_def supplied_def businessFields_def)

lemma buildUpdate_cong:
  "\<forall>k\<in>set businessFields. b' k = b k \<Longrightarrow> buildUpdate b' = buildUpdate b"
  by (simp add: buildUpdate_def supplied_def getProp_def businessFields_def)

lemma setPath_accepted:
  assumes "k \<in> set businessFields" and "validate JUndefined = None"
    and "\<forall>v. b k = Some v \<longrightarrow> validate v \<noteq> None"
  shows "\<exists>x. setPath validate (buildUpdate b) k = Some x \<and>
           (case b k of None \<Rightarrow> x = None | Some v \<Rightarrow> x \<noteq> None \<and> x = validate v)"
proof (cases "b k")
  case None
  with assms(1) show ?thesis
    by (simp add: setPath_def map_of_buildUpdate getProp_def)
next
  case (Some v)
  with assms(3) obtain y where y: "validate v = Some y"
    by auto
  with assms(2) have "v \<noteq> JUndefined"
    by auto
  with Some y assms(1) show ?thesis
    by (simp add: setPath_def map_of_buildUpdate getProp_def)
qed

lemma putBook_found:
  assumes "toObjectId M ident = Some oid" and "buildUpdate b \<noteq> []"
    and "castUpdate M (buildUpdate b) = Some p"
    and "d \<in> set db" and "bId d = oid" and "distinct (map bId db)"
  shows "putBook M now ident b db =
           ((200, Doc (applyPatch now p d)),
            map (\<lambda>x. if bId x = oid then applyPatch now p d else x) db)"
proof -
  from assms(4-6) have found: "find (\<lambda>x. bId x = oid) db = Some d"
    using find_present by blast
  have "map (\<lambda>x. if bId x = oid then applyPatch now p x else x) db =
        map (\<lambda>x. if bId x = oid then applyPatch now p d else x) db"
    using assms(4-6) by (auto dest: same_id_same_doc)
  with assms(6) have "updateOne oid (applyPatch now p) db =
        map (\<lambda>x. if bId x = oid then applyPatch now p d else x) db"
    by (simp add: updateOne_map)
  with assms(1-3) found show ?thesis
    by (simp add: putBook_def findByIdAndUpdate_def isValidObjectId_def)
qed

lemma putBook_no_fields:
  assumes "\<forall>k\<in>set businessFields. b k = None"
  shows "putBook M now ident b db =
           ((400, Error (if isValidObjectId M ident then NenhumCampo else IdInvalido)), db)"
proof -
  from assms have "\<forall>k\<in>set businessFields. getProp b k = JUndefined"
    by (simp add: getProp_def)
  then have "buildUpdate b = []"
    by (simp add: buildUpdate_empty)
  then show ?thesis
    by (simp add: putBook_def)
qed

lemma putBook_collection:
  "snd (putBook M now ident b db) = db \<or>
   (\<exists>oid p. snd (putBook M now ident b db) = updateOne oid (applyPatch now p) db)"
  by (auto simp: putBook_def findByIdAndUpdate_def Let_def split: option.splits)

lemma putBook_frame:
  assumes "putBook M now ident b db = (r, db')"
  shows "map bId db' = map bId db \<and> map createdAt db' = map createdAt db \<and>
         map versionKey db' = map versionKey db \<and>
         list_all2 (\<lambda>x y. updatedAt y = updatedAt x \<or> updatedAt y = now) db db'"
proof -
  from putBook_collection [of M now ident b db] assms
  consider "db' = db" | oid p where "db' = updateOne oid (applyPatch now p) db"
    by auto
  then show ?thesis
  proof cases
    case 1
    then show ?thesis by (simp add: list_all2_refl)
  next
    case 2
    have "list_all2 (\<lambda>x y. updatedAt y = updatedAt x \<or> updatedAt y = now) db
            (updateOne oid (applyPatch now p) db)"
      by (rule updateOne_frame) (simp_all add: applyPatch_def)
    with 2 show ?thesis
      by (simp add: map_bId_updateOne map_createdAt_updateOne map_versionKey_updateOne
          applyPatch_def)
  qed
qed

subsection \<open>Unique identifiers are an invariant of the handlers\<close>

lemma distinct_ids_postBooks:
  "distinct (map bId db) \<Longrightarrow> distinct (map bId (snd (postBooks M now fresh b db)))"
  by (auto simp: postBooks_def save_def Let_def ids_def split: option.splits)

lemma distinct_ids_putBook:
  "distinct (map bId db) \<Longrightarrow> distinct (map bId (snd (putBook M now ident b db)))"
  using putBook_frame [of M now ident b db] by (cases "putBook M now ident b db") simp

lemma distinct_ids_deleteBook:
  "distinct (map bId db) \<Longrightarrow> distinct (map bId (snd (deleteBook M ident db)))"
  by (auto simp: deleteBook_def findByIdAndDelete_def distinct_deleteOne split: option.splits)

subsection \<open>The server process\<close>













section \<open>Create\<close>

text \<open>
  Claim C2. For every Create request whose body lacks one of the five required fields, or
  has null for it, the handler answers 400 with the required-fields message and the
  collection is what it was.
\<close>

theorem C2_create_missing_field:
  assumes "k \<in> set businessFields" and "b k = None \<or> b k = Some JNull"
  shows "postBooks M now fresh b db = ((400, Error CamposObrigatorios), db)"
proof -
  from assms(2) have "\<not> truthy (getProp b k) \<and> nullish (getProp b k)"
    by (auto simp: getProp_def)
  with assms(1) show ?thesis
    by (auto simp: postBooks_def businessFields_def Let_def)
qed

text \<open>
  Claim C2 on a payload without \<^verbatim>\<open>preco\<close> and on one with a null \<^verbatim>\<open>titulo\<close>.
\<close>

theorem C2_create_missing_field_witness:
  "''preco'' \<in> set businessFields \<and>
   postBooks hexDriver 5000 idB (bodyA(''preco'' := None)) [bookA] =
     ((400, Error CamposObrigatorios), [bookA]) \<and>
   postBooks hexDriver 5000 idB (bodyA(''titulo'' \<mapsto> JNull)) [bookA] =
     ((400, Error CamposObrigatorios), [bookA])"
proof -
  have k: "''preco'' \<in> set businessFields" "''titulo'' \<in> set businessFields"
    by (simp_all add: businessFields_def)
  have m: "(bodyA(''preco'' := None)) ''preco'' = None \<or> (bodyA(''preco'' := None)) ''preco'' = Some JNull"
    "(bodyA(''titulo'' \<mapsto> JNull)) ''titulo'' = None \<or> (bodyA(''titulo'' \<mapsto> JNull)) ''titulo'' = Some JNull"
    by simp_all
  from C2_create_missing_field [of "''preco''" "bodyA(''preco'' := None)" hexDriver 5000 idB "[bookA]"]
       C2_create_missing_field [of "''titulo''" "bodyA(''titulo'' \<mapsto> JNull)" hexDriver 5000 idB "[bookA]"]
       k m
  show ?thesis by simp
qed




text \<open>
  Claim C9. Create answers 400 whenever titulo, autor or editora is the empty string; with
  the three text fields in order it accepts 0 for ano and for preco and stores them; and
  the 400 of the presence check is given exactly when one of the three text fields is
  falsy or one of the two numeric fields is null or undefined.
\<close>

theorem C9_presence_check:
  "(\<forall>k\<in>{''titulo'', ''autor'', ''editora''}. b k = Some (JStr []) \<longrightarrow>
      postBooks M now fresh b db = ((400, Error CamposObrigatorios), db)) \<and>
   ((\<forall>k\<in>{''titulo'', ''autor'', ''editora''}. \<exists>v. b k = Some v \<and> textValue v) \<and>
    b ''ano'' = Some (JNum (Finite 0)) \<and> b ''preco'' = Some (JNum (Finite 0)) \<and> fresh \<notin> ids db \<longrightarrow>
      (\<exists>doc. postBooks M now fresh b db = ((201, Doc doc), db @ [doc]) \<and>
             ano doc = Finite 0 \<and> preco doc = Finite 0)) \<and>
   (postBooks M now fresh b db = ((400, Error CamposObrigatorios), db) \<longleftrightarrow>
      \<not> truthy (getProp b ''titulo'') \<or> \<not> truthy (getProp b ''autor'') \<or>
      \<not> truthy (getProp b ''editora'') \<or> nullish (getProp b ''ano'') \<or>
      nullish (getProp b ''preco''))"
proof (intro conjI ballI impI)
  fix k
  assume "k \<in> {''titulo'', ''autor'', ''editora''}" and "b k = Some (JStr [])"
  then have "\<not> truthy (getProp b ''titulo'') \<or> \<not> truthy (getProp b ''autor'') \<or>
             \<not> truthy (getProp b ''editora'')"
    by (auto simp: getProp_def)
  then show "postBooks M now fresh b db = ((400, Error CamposObrigatorios), db)"
    using postBooks_rejects_iff [of M now fresh b db] by blast
next
  assume h: "(\<forall>k\<in>{''titulo'', ''autor'', ''editora''}. \<exists>v. b k = Some v \<and> textValue v) \<and>
    b ''ano'' = Some (JNum (Finite 0)) \<and> b ''preco'' = Some (JNum (Finite 0)) \<and> fresh \<notin> ids db"
  then obtain t a e where
    f: "b ''titulo'' = Some (JStr t)" "t \<noteq> []" "b ''autor'' = Some (JStr a)" "a \<noteq> []"
       "b ''editora'' = Some (JStr e)" "e \<noteq> []"
    by (auto simp: textValue_iff)
  from h have z: "b ''ano'' = Some (JNum (Finite 0))" "b ''preco'' = Some (JNum (Finite 0))"
    "fresh \<notin> ids db"
    by simp_all
  show "\<exists>doc. postBooks M now fresh b db = ((201, Doc doc), db @ [doc]) \<and>
             ano doc = Finite 0 \<and> preco doc = Finite 0"
    using postBooks_typed [OF f z(1) _ z(2) _ z(3), of M now] by simp
next
  show "postBooks M now fresh b db = ((400, Error CamposObrigatorios), db) \<longleftrightarrow>
      \<not> truthy (getProp b ''titulo'') \<or> \<not> truthy (getProp b ''autor'') \<or>
      \<not> truthy (getProp b ''editora'') \<or> nullish (getProp b ''ano'') \<or>
      nullish (getProp b ''preco'')"
    by (rule postBooks_rejects_iff)
qed

text \<open>
  Claim C9 on a payload with an empty \<^verbatim>\<open>titulo\<close> and on one with \<^verbatim>\<open>ano\<close> and
  \<^verbatim>\<open>preco\<close> both 0.
\<close>

theorem C9_presence_check_witness:
  "postBooks hexDriver 5000 idB bodyEmptyTitulo [bookA] =
     ((400, Error CamposObrigatorios), [bookA]) \<and>
   (\<exists>doc. postBooks hexDriver 5000 idB bodyZero [bookA] = ((201, Doc doc), [bookA] @ [doc]) \<and>
          ano doc = Finite 0 \<and> preco doc = Finite 0)"
proof -
  have h: "''titulo'' \<in> {''titulo'', ''autor'', ''editora''}"
    "bodyEmptyTitulo ''titulo'' = Some (JStr [])"
    "\<forall>k\<in>{''titulo'', ''autor'', ''editora''}. \<exists>v. bodyZero k = Some v \<and> textValue v"
    "bodyZero ''ano'' = Some (JNum (Finite 0))" "bodyZero ''preco'' = Some (JNum (Finite 0))"
    "idB \<notin> ids [bookA]"
    by (simp_all add: bodyEmptyTitulo_def bodyZero_def bodyA_def ids_def bookA_def idA_def
        idB_def)
  from C9_presence_check [of bodyEmptyTitulo hexDriver 5000 idB "[bookA]"]
       C9_presence_check [of bodyZero hexDriver 5000 idB "[bookA]"] h
  show ?thesis
    by blast
qed

section \<open>List\<close>

text \<open>
  Claim C1 says that the limit is floored at 1, and in particular that \<^verbatim>\<open>limit=0\<close>
  behaves as \<^verbatim>\<open>limit=1\<close>. Line 72 does floor at 1 with \<^verbatim>\<open>Math.max(1, ...)\<close>: a
  limit of -1 becomes 1, as 1000 becomes 100 and an absent limit 20. The limit 0 alone
  never reaches the floor, because \<^verbatim>\<open>parseInt("0") || 20\<close> is 20, zero being falsy:
  the request is answered with the default limit and not with the answer to
  \<^verbatim>\<open>limit=1\<close>.
\<close>

theorem C1_limit_zero:
  "limitOf (Some ''0'') = Finite 20 \<and> limitOf (Some ''1'') = Finite 1 \<and>
   limitOf (Some ''-1'') = Finite 1 \<and> limitOf (Some ''1000'') = Finite 100 \<and>
   limitOf None = Finite 20 \<and>
   getBooks None (Some ''0'') [bookA, bookB] =
     (200, Listing (Finite 1) (Finite 20) 2 [bookB, bookA]) \<and>
   getBooks None (Some ''1'') [bookA, bookB] = (200, Listing (Finite 1) (Finite 1) 2 [bookB])"
  by (simp add: getBooks_def pageOf_def limitOf_def skipOf_def orDefault_def mathMax_def
      mathMin_def minusOne_def multiply_def parse_defs roundToDouble_def findPage_def
      limited_def countDocuments_def sortCreatedDesc_def bookA_def bookB_def)



section \<open>Read by identifier\<close>

text \<open>
  Claim C6. For every GetById request: an identifier that is not in valid format gives
  400; a valid identifier that no record has gives 404; a valid identifier of a stored
  record gives 200 with exactly that record. Identifiers are unique in the collection, as
  the index on \<^verbatim>\<open>_id\<close> keeps them.
\<close>

theorem C6_get_by_id:
  "(\<not> isValidObjectId M ident \<longrightarrow> getBookById M ident db = (400, Error IdInvalido)) \<and>
   (\<forall>oid. toObjectId M ident = Some oid \<and> oid \<notin> ids db \<longrightarrow>
      getBookById M ident db = (404, Error LivroNaoEncontrado)) \<and>
   (\<forall>d. toObjectId M ident = Some (bId d) \<and> d \<in> set db \<and> distinct (map bId db) \<longrightarrow>
      getBookById M ident db = (200, Doc d))"
proof (intro conjI allI impI)
  assume "\<not> isValidObjectId M ident"
  then show "getBookById M ident db = (400, Error IdInvalido)"
    by (simp add: getBookById_def)
next
  fix oid
  assume "toObjectId M ident = Some oid \<and> oid \<notin> ids db"
  then show "getBookById M ident db = (404, Error LivroNaoEncontrado)"
    by (simp add: getBookById_def findById_def isValidObjectId_def find_absent)
next
  fix d
  assume "toObjectId M ident = Some (bId d) \<and> d \<in> set db \<and> distinct (map bId db)"
  then show "getBookById M ident db = (200, Doc d)"
    by (simp add: getBookById_def findById_def isValidObjectId_def find_present)
qed

text \<open>
  Claim C6 on a malformed identifier, on a well-formed one that is not assigned, and on
  the identifier of the second stored book.
\<close>

theorem C6_get_by_id_witness:
  "getBookById hexDriver ''abc'' [bookA, bookB] = (400, Error IdInvalido) \<and>
   getBookById hexDriver ''ffffffffffffffffffffffff'' [bookA, bookB] =
     (404, Error LivroNaoEncontrado) \<and>
   getBookById hexDriver idB [bookA, bookB] = (200, Doc bookB)"
proof -
  have h: "\<not> isValidObjectId hexDriver ''abc''"
    "toObjectId hexDriver ''ffffffffffffffffffffffff'' = Some ''ffffffffffffffffffffffff''"
    "''ffffffffffffffffffffffff'' \<notin> ids [bookA, bookB]"
    "toObjectId hexDriver idB = Some (bId bookB)" "bookB \<in> set [bookA, bookB]"
    "distinct (map bId [bookA, bookB])"
    by (simp_all add: isValidObjectId_def hex_defs ids_def idA_def idB_def bookA_def bookB_def)
  from C6_get_by_id [of hexDriver "''abc''" "[bookA, bookB]"]
       C6_get_by_id [of hexDriver "''ffffffffffffffffffffffff''" "[bookA, bookB]"]
       C6_get_by_id [of hexDriver idB "[bookA, bookB]"] h
  show ?thesis
    by blast
qed

section \<open>Update\<close>

text \<open>
  Claim C4 as stated promises, for every non-empty subset of the five fields, the updated
  record and a last-modified timestamp that advances. Two requests to a stored book with
  a valid identifier: a body that supplies \<^verbatim>\<open>titulo\<close> as null is refused by the
  validators, so the handler answers 500 and the record stays as it was; and an update of
  \<^verbatim>\<open>preco\<close> handled at the clock reading the record was last written at succeeds and
  leaves the last-modified timestamp where it was.
\<close>

theorem C4_update_counterexample:
  "isValidObjectId hexDriver idA \<and> bookA \<in> set [bookA, bookB] \<and> bId bookA = idA \<and>
   putBook hexDriver 5000 idA [''titulo'' \<mapsto> JNull] [bookA, bookB] =
     ((500, Error ErroAtualizar), [bookA, bookB]) \<and>
   putBook hexDriver 1000 idA bodyPreco [bookA, bookB] =
     ((200, Doc (bookA \<lparr> preco := Finite 12 \<rparr>)), [bookA \<lparr> preco := Finite 12 \<rparr>, bookB]) \<and>
   updatedAt (bookA \<lparr> preco := Finite 12 \<rparr>) = updatedAt bookA"
  by (simp add: putBook_def buildUpdate_def supplied_def getProp_def findByIdAndUpdate_def
      castUpdate_def setPath_def requiredString_def requiredNumber_def applyPatch_def
      isValidObjectId_def hex_defs idA_def idB_def bookA_def bookB_def bodyPreco_def)

text \<open>
  Claim C4, amended. For every Update request with a valid identifier of a stored record
  and a non-empty subset of the five fields in which every supplied value is accepted by
  the schema, casts included, the handler answers 200 with the updated record, which
  replaces the old one in the collection while every other record stays the same; each
  supplied field has the value the schema made of what was supplied, which for a
  non-empty string and for a number is that value itself; each field not supplied, the
  identifier, the creation timestamp and the version key are unchanged; the
  last-modified timestamp is the server's clock reading at the update, so that it
  advances exactly when the clock has passed the stored one; and a record that
  satisfied the required-field schema still does.
\<close>

theorem C4_update_supplied_fields:
  assumes ident: "toObjectId M ident = Some oid"
    and stored: "d \<in> set db" "bId d = oid" "distinct (map bId db)"
    and some: "\<exists>k\<in>set businessFields. b k \<noteq> None"
    and valid: "\<forall>k\<in>set businessFields. \<forall>v. b k = Some v \<longrightarrow> accepted M k v"
  shows "\<exists>d'. putBook M now ident b db =
                 ((200, Doc d'), map (\<lambda>x. if bId x = oid then d' else x) db) \<and>
     (case b ''titulo'' of None \<Rightarrow> titulo d' = titulo d
      | Some v \<Rightarrow> requiredString M v = Some (titulo d')) \<and>
     (case b ''autor'' of None \<Rightarrow> autor d' = autor d
      | Some v \<Rightarrow> requiredString M v = Some (autor d')) \<and>
     (case b ''editora'' of None \<Rightarrow> editora d' = editora d
      | Some v \<Rightarrow> requiredString M v = Some (editora d')) \<and>
     (case b ''ano'' of None \<Rightarrow> ano d' = ano d
      | Some v \<Rightarrow> requiredNumber M v = Some (ano d')) \<and>
     (case b ''preco'' of None \<Rightarrow> preco d' = preco d
      | Some v \<Rightarrow> requiredNumber M v = Some (preco d')) \<and>
     (\<forall>z. b ''titulo'' = Some (JStr z) \<longrightarrow> titulo d' = z) \<and>
     (\<forall>z. b ''autor'' = Some (JStr z) \<longrightarrow> autor d' = z) \<and>
     (\<forall>z. b ''editora'' = Some (JStr z) \<longrightarrow> editora d' = z) \<and>
     (\<forall>z. b ''ano'' = Some (JNum z) \<longrightarrow> ano d' = z) \<and>
     (\<forall>z. b ''preco'' = Some (JNum z) \<longrightarrow> preco d' = z) \<and>
     bId d' = bId d \<and> createdAt d' = createdAt d \<and> versionKey d' = versionKey d \<and>
     updatedAt d' = now \<and> (updatedAt d < updatedAt d' \<longleftrightarrow> updatedAt d < now) \<and>
     (titulo d \<noteq> [] \<and> autor d \<noteq> [] \<and> editora d \<noteq> [] \<and> ano d \<noteq> NaN \<and> preco d \<noteq> NaN \<longrightarrow>
        titulo d' \<noteq> [] \<and> autor d' \<noteq> [] \<and> editora d' \<noteq> [] \<and> ano d' \<noteq> NaN \<and>
        preco d' \<noteq> NaN)"
proof -
  from valid have strs:
    "\<forall>v. b ''titulo'' = Some v \<longrightarrow> requiredString M v \<noteq> None"
    "\<forall>v. b ''autor'' = Some v \<longrightarrow> requiredString M v \<noteq> None"
    "\<forall>v. b ''editora'' = Some v \<longrightarrow> requiredString M v \<noteq> None"
    and nums:
    "\<forall>v. b ''ano'' = Some v \<longrightarrow> requiredNumber M v \<noteq> None"
    "\<forall>v. b ''preco'' = Some v \<longrightarrow> requiredNumber M v \<noteq> None"
    by (simp_all add: businessFields_def accepted_def)
  have keys: "''titulo'' \<in> set businessFields" "''autor'' \<in> set businessFields"
    "''editora'' \<in> set businessFields" "''ano'' \<in> set businessFields"
    "''preco'' \<in> set businessFields"
    by (simp_all add: businessFields_def)
  note su = requiredString_undefined [of M] and nu = requiredNumber_undefined [of M]
  from setPath_accepted [of "''titulo''" "requiredString M" b] keys(1) su strs(1) obtain t where
    t: "setPath (requiredString M) (buildUpdate b) ''titulo'' = Some t"
       "case b ''titulo'' of None \<Rightarrow> t = None
        | Some v \<Rightarrow> t \<noteq> None \<and> t = requiredString M v"
    by blast
  from setPath_accepted [of "''autor''" "requiredString M" b] keys(2) su strs(2) obtain a where
    a: "setPath (requiredString M) (buildUpdate b) ''autor'' = Some a"
       "case b ''autor'' of None \<Rightarrow> a = None
        | Some v \<Rightarrow> a \<noteq> None \<and> a = requiredString M v"
    by blast
  from setPath_accepted [of "''editora''" "requiredString M" b] keys(3) su strs(3) obtain e where
    e: "setPath (requiredString M) (buildUpdate b) ''editora'' = Some e"
       "case b ''editora'' of None \<Rightarrow> e = None
        | Some v \<Rightarrow> e \<noteq> None \<and> e = requiredString M v"
    by blast
  from setPath_accepted [of "''ano''" "requiredNumber M" b] keys(4) nu nums(1) obtain n where
    n: "setPath (requiredNumber M) (buildUpdate b) ''ano'' = Some n"
       "case b ''ano'' of None \<Rightarrow> n = None
        | Some v \<Rightarrow> n \<noteq> None \<and> n = requiredNumber M v"
    by blast
  from setPath_accepted [of "''preco''" "requiredNumber M" b] keys(5) nu nums(2) obtain p where
    p: "setPath (requiredNumber M) (buildUpdate b) ''preco'' = Some p"
       "case b ''preco'' of None \<Rightarrow> p = None
        | Some v \<Rightarrow> p \<noteq> None \<and> p = requiredNumber M v"
    by blast
  let ?p = "\<lparr> setTitulo = t, setAutor = a, setEditora = e, setAno = n, setPreco = p \<rparr>"
  let ?d = "applyPatch now ?p d"
  have cast: "castUpdate M (buildUpdate b) = Some ?p"
    by (simp add: castUpdate_def t(1) a(1) e(1) n(1) p(1))
  from some obtain k v where k: "k \<in> set businessFields" "b k = Some v"
    by auto
  with valid have "accepted M k v"
    by blast
  then have "v \<noteq> JUndefined"
    by (auto simp: accepted_def su nu split: if_splits)
  with k(2) have "getProp b k \<noteq> JUndefined"
    by (simp add: getProp_def)
  with k(1) have nonempty: "buildUpdate b \<noteq> []"
    using buildUpdate_empty [of b] by blast
  have put: "putBook M now ident b db =
               ((200, Doc ?d), map (\<lambda>x. if bId x = oid then ?d else x) db)"
    by (rule putBook_found [OF ident nonempty cast stored])
  have ft: "case b ''titulo'' of None \<Rightarrow> titulo ?d = titulo d
            | Some v \<Rightarrow> requiredString M v = Some (titulo ?d)"
    using t(2) by (auto simp: applyPatch_def split: option.splits)
  have fa: "case b ''autor'' of None \<Rightarrow> autor ?d = autor d
            | Some v \<Rightarrow> requiredString M v = Some (autor ?d)"
    using a(2) by (auto simp: applyPatch_def split: option.splits)
  have fe: "case b ''editora'' of None \<Rightarrow> editora ?d = editora d
            | Some v \<Rightarrow> requiredString M v = Some (editora ?d)"
    using e(2) by (auto simp: applyPatch_def split: option.splits)
  have fn: "case b ''ano'' of None \<Rightarrow> ano ?d = ano d
            | Some v \<Rightarrow> requiredNumber M v = Some (ano ?d)"
    using n(2) by (auto simp: applyPatch_def split: option.splits)
  have fp: "case b ''preco'' of None \<Rightarrow> preco ?d = preco d
            | Some v \<Rightarrow> requiredNumber M v = Some (preco ?d)"
    using p(2) by (auto simp: applyPatch_def split: option.splits)
  have nt: "\<forall>z. b ''titulo'' = Some (JStr z) \<longrightarrow> titulo ?d = z"
    using ft by (auto simp: requiredString_JStr split: if_splits)
  have na: "\<forall>z. b ''autor'' = Some (JStr z) \<longrightarrow> autor ?d = z"
    using fa by (auto simp: requiredString_JStr split: if_splits)
  have ne: "\<forall>z. b ''editora'' = Some (JStr z) \<longrightarrow> editora ?d = z"
    using fe by (auto simp: requiredString_JStr split: if_splits)
  have nn: "\<forall>z. b ''ano'' = Some (JNum z) \<longrightarrow> ano ?d = z"
    using fn by (auto simp: requiredNumber_JNum split: if_splits)
  have np: "\<forall>z. b ''preco'' = Some (JNum z) \<longrightarrow> preco ?d = z"
    using fp by (auto simp: requiredNumber_JNum split: if_splits)
  have frame: "bId ?d = bId d \<and> createdAt ?d = createdAt d \<and> versionKey ?d = versionKey d \<and>
               updatedAt ?d = now \<and> (updatedAt d < updatedAt ?d \<longleftrightarrow> updatedAt d < now)"
    by (simp add: applyPatch_def)
  have revalidates: "titulo d \<noteq> [] \<and> autor d \<noteq> [] \<and> editora d \<noteq> [] \<and> ano d \<noteq> NaN \<and>
        preco d \<noteq> NaN \<longrightarrow>
        titulo ?d \<noteq> [] \<and> autor ?d \<noteq> [] \<and> editora ?d \<noteq> [] \<and> ano ?d \<noteq> NaN \<and> preco ?d \<noteq> NaN"
    using ft fa fe fn fp
    by (auto split: option.splits dest: requiredString_nonempty requiredNumber_number)
  from put ft fa fe fn fp nt na ne nn np frame revalidates show ?thesis
    by blast
qed

text \<open>
  The amended claim C4 on the first of two books with a new \<^verbatim>\<open>preco\<close>: only the
  price and the last-modified timestamp change, and the second book is untouched. And on
  a year sent as the string \<^verbatim>\<open>"2021"\<close> to a driver that casts it: the stored year is
  the number 2021.
\<close>

theorem C4_update_supplied_fields_witness:
  "putBook hexDriver 5000 idA bodyPreco [bookA, bookB] =
     ((200, Doc (bookA \<lparr> preco := Finite 12, updatedAt := 5000 \<rparr>)),
      [bookA \<lparr> preco := Finite 12, updatedAt := 5000 \<rparr>, bookB]) \<and>
   (\<exists>d'. putBook castingDriver 5000 ''000000000000000000000000'' bodyAnoText [firstBook] =
            ((200, Doc d'), [d']) \<and> ano d' = Finite 2021 \<and> updatedAt d' = 5000)"
proof -
  have h: "toObjectId hexDriver idA = Some idA" "bookA \<in> set [bookA, bookB]" "bId bookA = idA"
    "distinct (map bId [bookA, bookB])"
    "\<exists>k\<in>set businessFields. bodyPreco k \<noteq> None"
    "\<forall>k\<in>set businessFields. \<forall>v. bodyPreco k = Some v \<longrightarrow> accepted hexDriver k v"
    by (simp_all add: hex_defs idA_def idB_def bookA_def bookB_def businessFields_def
        accepted_def requiredNumber_def bodyPreco_def)
  from C4_update_supplied_fields [OF h, of 5000] obtain d' where
    put: "putBook hexDriver 5000 idA bodyPreco [bookA, bookB] =
           ((200, Doc d'), map (\<lambda>x. if bId x = idA then d' else x) [bookA, bookB])"
    and t: "case bodyPreco ''titulo'' of None \<Rightarrow> titulo d' = titulo bookA
            | Some v \<Rightarrow> requiredString hexDriver v = Some (titulo d')"
    and a: "case bodyPreco ''autor'' of None \<Rightarrow> autor d' = autor bookA
            | Some v \<Rightarrow> requiredString hexDriver v = Some (autor d')"
    and e: "case bodyPreco ''editora'' of None \<Rightarrow> editora d' = editora bookA
            | Some v \<Rightarrow> requiredString hexDriver v = Some (editora d')"
    and n: "case bodyPreco ''ano'' of None \<Rightarrow> ano d' = ano bookA
            | Some v \<Rightarrow> requiredNumber hexDriver v = Some (ano d')"
    and p: "\<forall>z. bodyPreco ''preco'' = Some (JNum z) \<longrightarrow> preco d' = z"
    and frame: "bId d' = bId bookA" "createdAt d' = createdAt bookA"
      "versionKey d' = versionKey bookA" "updatedAt d' = 5000"
    by blast
  from t a e n p frame have "d' = bookA \<lparr> preco := Finite 12, updatedAt := 5000 \<rparr>"
    by (cases d') (simp add: bodyPreco_def bookA_def)
  with put have first: "putBook hexDriver 5000 idA bodyPreco [bookA, bookB] =
     ((200, Doc (bookA \<lparr> preco := Finite 12, updatedAt := 5000 \<rparr>)),
      [bookA \<lparr> preco := Finite 12, updatedAt := 5000 \<rparr>, bookB])"
    by (simp add: bookA_def bookB_def idA_def idB_def)
  have g: "toObjectId castingDriver ''000000000000000000000000'' = Some 0"
    "firstBook \<in> set [firstBook]" "bId firstBook = 0" "distinct (map bId [firstBook])"
    "\<exists>k\<in>set businessFields. bodyAnoText k \<noteq> None"
    "\<forall>k\<in>set businessFields. \<forall>v. bodyAnoText k = Some v \<longrightarrow> accepted castingDriver k v"
    "requiredNumber castingDriver (JStr ''2021'') = Some (Finite 2021)"
    by (simp_all add: castingDriver_def seqDriver_def isHex24_def isDigit_def digitVal_def
        digitsValue_def firstBook_def businessFields_def accepted_def requiredNumber_def
        bodyAnoText_def)
  from C4_update_supplied_fields [OF g(1-6), of 5000] obtain d' where
    "putBook castingDriver 5000 ''000000000000000000000000'' bodyAnoText [firstBook] =
       ((200, Doc d'), map (\<lambda>x. if bId x = 0 then d' else x) [firstBook])"
    and "case bodyAnoText ''ano'' of None \<Rightarrow> ano d' = ano firstBook
         | Some v \<Rightarrow> requiredNumber castingDriver v = Some (ano d')"
    and "updatedAt d' = 5000"
    by blast
  with g(7) have "putBook castingDriver 5000 ''000000000000000000000000'' bodyAnoText [firstBook] =
            ((200, Doc d'), [d']) \<and> ano d' = Finite 2021 \<and> updatedAt d' = 5000"
    by (simp add: bodyAnoText_def firstBook_def)
  with first show ?thesis
    by blast
qed

text \<open>
  Claim C5. For every Update request whose identifier is not in valid identifier format,
  or whose body supplies none of the five fields, the handler answers 400, with the
  invalid-identifier message in the first case and the nothing-to-update message
  otherwise, and the collection is what it was.
\<close>

theorem C5_update_rejected:
  assumes "\<not> isValidObjectId M ident \<or> (\<forall>k\<in>set businessFields. b k = None)"
  shows "putBook M now ident b db =
           ((400, Error (if isValidObjectId M ident then NenhumCampo else IdInvalido)), db)"
proof (cases "isValidObjectId M ident")
  case False
  then show ?thesis
    by (simp add: putBook_def)
next
  case True
  with assms have "\<forall>k\<in>set businessFields. b k = None"
    by simp
  then show ?thesis
    by (rule putBook_no_fields)
qed

text \<open>
  Claim C5 on the malformed identifier \<^verbatim>\<open>abc\<close> and on an empty body sent to a stored
  book.
\<close>

theorem C5_update_rejected_witness:
  "putBook hexDriver 5000 ''abc'' bodyPreco [bookA, bookB] =
     ((400, Error IdInvalido), [bookA, bookB]) \<and>
   putBook hexDriver 5000 idA Map.empty [bookA, bookB] =
     ((400, Error NenhumCampo), [bookA, bookB])"
proof -
  have v: "\<not> isValidObjectId hexDriver ''abc''" "isValidObjectId hexDriver idA"
    by (simp_all add: isValidObjectId_def hex_defs idA_def)
  have e: "\<forall>k\<in>set businessFields. (Map.empty :: body) k = None"
    by simp
  from C5_update_rejected [of hexDriver "''abc''" bodyPreco 5000 "[bookA, bookB]"]
       C5_update_rejected [of hexDriver idA Map.empty 5000 "[bookA, bookB]"] v e
  show ?thesis
    by simp
qed

text \<open>
  Claim C10. Update builds its modification set from the five business fields only: a
  body with no key among the five is answered with 400 and the collection is what it was;
  two bodies that agree on the five keys are treated alike, whatever else they carry; and
  no Update changes the identifier, the creation timestamp or the position of any record,
  while a last-modified timestamp is either kept or set to the time of the request.
\<close>

theorem C10_update_only_business_fields:
  "(dom b \<inter> set businessFields = {} \<longrightarrow>
      putBook M now ident b db =
        ((400, Error (if isValidObjectId M ident then NenhumCampo else IdInvalido)), db)) \<and>
   ((\<forall>k\<in>set businessFields. b' k = b k) \<longrightarrow>
      putBook M now ident b' db = putBook M now ident b db) \<and>
   (\<forall>r db'. putBook M now ident b db = (r, db') \<longrightarrow>
      map bId db' = map bId db \<and> map createdAt db' = map createdAt db \<and>
      list_all2 (\<lambda>x y. updatedAt y = updatedAt x \<or> updatedAt y = now) db db')"
proof (intro conjI allI impI)
  assume "dom b \<inter> set businessFields = {}"
  then have "\<forall>k\<in>set businessFields. b k = None"
    by auto
  then show "putBook M now ident b db =
        ((400, Error (if isValidObjectId M ident then NenhumCampo else IdInvalido)), db)"
    by (rule putBook_no_fields)
next
  assume "\<forall>k\<in>set businessFields. b' k = b k"
  then have "buildUpdate b' = buildUpdate b"
    by (rule buildUpdate_cong)
  then show "putBook M now ident b' db = putBook M now ident b db"
    by (simp add: putBook_def)
next
  fix r db'
  assume "putBook M now ident b db = (r, db')"
  from putBook_frame [OF this]
  show "map bId db' = map bId db" and "map createdAt db' = map createdAt db"
    and "list_all2 (\<lambda>x y. updatedAt y = updatedAt x \<or> updatedAt y = now) db db'"
    by simp_all
qed

text \<open>
  Claim C10 on a body that tries to set \<^verbatim>\<open>_id\<close>, \<^verbatim>\<open>createdAt\<close> and
  \<^verbatim>\<open>updatedAt\<close>, alone and together with a new \<^verbatim>\<open>preco\<close>.
\<close>

theorem C10_update_only_business_fields_witness:
  "putBook hexDriver 5000 idA bodyForeign [bookA, bookB] =
     ((400, Error NenhumCampo), [bookA, bookB]) \<and>
   putBook hexDriver 5000 idA (bodyForeign(''preco'' \<mapsto> JNum (Finite 12))) [bookA, bookB] =
     putBook hexDriver 5000 idA bodyPreco [bookA, bookB]"
proof -
  have h: "dom bodyForeign \<inter> set businessFields = {}" "isValidObjectId hexDriver idA"
    "\<forall>k\<in>set businessFields. (bodyForeign(''preco'' \<mapsto> JNum (Finite 12))) k = bodyPreco k"
    by (simp_all add: bodyForeign_def bodyPreco_def businessFields_def isValidObjectId_def
        hex_defs idA_def)
  from C10_update_only_business_fields [of bodyForeign hexDriver 5000 idA "[bookA, bookB]"]
       C10_update_only_business_fields
         [of bodyPreco hexDriver 5000 idA "[bookA, bookB]" "bodyForeign(''preco'' \<mapsto> JNum (Finite 12))"]
       h
  show ?thesis
    by simp
qed

section \<open>Delete\<close>

text \<open>
  Claim C7. For every Delete request: an identifier that is not in valid format gives 400
  and one that no record has gives 404, both without touching the collection; the
  identifier of a stored record gives 200 with the record as it was before the deletion,
  the collection afterwards is the old one without that record, and a GetById on the same
  identifier then gives 404.
\<close>

theorem C7_delete:
  "(\<not> isValidObjectId M ident \<longrightarrow> deleteBook M ident db = ((400, Error IdInvalido), db)) \<and>
   (\<forall>oid. toObjectId M ident = Some oid \<and> oid \<notin> ids db \<longrightarrow>
      deleteBook M ident db = ((404, Error LivroNaoEncontrado), db)) \<and>
   (\<forall>d. toObjectId M ident = Some (bId d) \<and> d \<in> set db \<and> distinct (map bId db) \<longrightarrow>
      (\<exists>db'. deleteBook M ident db = ((200, Removed LivroRemovido d), db') \<and>
             db' = filter (\<lambda>x. bId x \<noteq> bId d) db \<and>
             set db' = set db - {d} \<and>
             getBookById M ident db' = (404, Error LivroNaoEncontrado)))"
proof (intro conjI allI impI)
  assume "\<not> isValidObjectId M ident"
  then show "deleteBook M ident db = ((400, Error IdInvalido), db)"
    by (simp add: deleteBook_def)
next
  fix oid
  assume "toObjectId M ident = Some oid \<and> oid \<notin> ids db"
  then show "deleteBook M ident db = ((404, Error LivroNaoEncontrado), db)"
    by (simp add: deleteBook_def findByIdAndDelete_def isValidObjectId_def find_absent)
next
  fix d
  assume h: "toObjectId M ident = Some (bId d) \<and> d \<in> set db \<and> distinct (map bId db)"
  let ?db = "deleteOne (bId d) db"
  from h have del: "deleteBook M ident db = ((200, Removed LivroRemovido d), ?db)"
    by (simp add: deleteBook_def findByIdAndDelete_def isValidObjectId_def find_present)
  from h have gone: "bId d \<notin> ids ?db"
    by (simp add: ids_deleteOne)
  with h have "getBookById M ident ?db = (404, Error LivroNaoEncontrado)"
    by (simp add: getBookById_def findById_def isValidObjectId_def find_absent)
  with del h show "\<exists>db'. deleteBook M ident db = ((200, Removed LivroRemovido d), db') \<and>
             db' = filter (\<lambda>x. bId x \<noteq> bId d) db \<and>
             set db' = set db - {d} \<and>
             getBookById M ident db' = (404, Error LivroNaoEncontrado)"
    using set_deleteOne [of db d] by (simp add: deleteOne_filter)
qed

text \<open>
  Claim C7 on a malformed identifier, on an unassigned one, and on the first of two stored
  books, followed by the GetById that no longer finds it.
\<close>

theorem C7_delete_witness:
  "deleteBook hexDriver ''abc'' [bookA, bookB] = ((400, Error IdInvalido), [bookA, bookB]) \<and>
   deleteBook hexDriver ''ffffffffffffffffffffffff'' [bookA, bookB] =
     ((404, Error LivroNaoEncontrado), [bookA, bookB]) \<and>
   deleteBook hexDriver idA [bookA, bookB] = ((200, Removed LivroRemovido bookA), [bookB]) \<and>
   getBookById hexDriver idA [bookB] = (404, Error LivroNaoEncontrado)"
proof -
  have h: "\<not> isValidObjectId hexDriver ''abc''"
    "toObjectId hexDriver ''ffffffffffffffffffffffff'' = Some ''ffffffffffffffffffffffff''"
    "''ffffffffffffffffffffffff'' \<notin> ids [bookA, bookB]"
    "toObjectId hexDriver idA = Some (bId bookA)" "bookA \<in> set [bookA, bookB]"
    "distinct (map bId [bookA, bookB])"
    by (simp_all add: isValidObjectId_def hex_defs ids_def idA_def idB_def bookA_def bookB_def)
  have f: "filter (\<lambda>x. bId x \<noteq> bId bookA) [bookA, bookB] = [bookB]"
    by (simp add: idA_def idB_def bookA_def bookB_def)
  from C7_delete [of hexDriver "''abc''" "[bookA, bookB]"]
       C7_delete [of hexDriver "''ffffffffffffffffffffffff''" "[bookA, bookB]"]
       C7_delete [of hexDriver idA "[bookA, bookB]"] h
  have "deleteBook hexDriver ''abc'' [bookA, bookB] = ((400, Error IdInvalido), [bookA, bookB])"
    "deleteBook hexDriver ''ffffffffffffffffffffffff'' [bookA, bookB] =
       ((404, Error LivroNaoEncontrado), [bookA, bookB])"
    "\<exists>db'. deleteBook hexDriver idA [bookA, bookB] = ((200, Removed LivroRemovido bookA), db') \<and>
             db' = filter (\<lambda>x. bId x \<noteq> bId bookA) [bookA, bookB] \<and>
             set db' = set [bookA, bookB] - {bookA} \<and>
             getBookById hexDriver idA db' = (404, Error LivroNaoEncontrado)"
    by blast+
  with f show ?thesis
    by simp
qed

end
